theory Spec2Isabelle
  imports Complex_Main
begin

section \<open>Sparse matrices as the source observes them\<close>

text \<open>
  The source (\<^verbatim>\<open>csnanalysis/csn.py\<close>) handles scipy sparse matrices only through
  \<^verbatim>\<open>.shape\<close>, \<^verbatim>\<open>.toarray()\<close>, \<^verbatim>\<open>.sum(axis=1)\<close>, \<^verbatim>\<open>.transpose()\<close>, \<^verbatim>\<open>+\<close> and
  scalar \<^verbatim>\<open>*\<close>, and through the \<^verbatim>\<open>row\<close>/\<^verbatim>\<open>col\<close>/\<^verbatim>\<open>data\<close> triples of a matrix that
  \<^verbatim>\<open>scipy.sparse.coo_matrix\<close> built from a dense array. A matrix is therefore
  a record of its shape and of its dense content. The shape is kept as a field of its
  own, since a list of rows does not determine the number of columns of a matrix
  with no row. Numpy's \<^verbatim>\<open>float\<close> entries are idealised as real numbers: rounding,
  overflow and NaN are outside the model.
\<close>

record matrix =
  shape :: "nat \<times> nat"
  toarray :: "real list list"

definition valid_matrix :: "matrix \<Rightarrow> bool" where
  "valid_matrix M \<longleftrightarrow>
     length (toarray M) = fst (shape M) \<and>
     list_all (\<lambda>r. length r = snd (shape M)) (toarray M)"

definition nonneg :: "matrix \<Rightarrow> bool" where
  "nonneg M \<longleftrightarrow> list_all (list_all (\<lambda>x. 0 \<le> x)) (toarray M)"

definition square :: "matrix \<Rightarrow> bool" where
  "square M \<longleftrightarrow> fst (shape M) = snd (shape M)"

text \<open>\<^verbatim>\<open>scipy.sparse.coo_matrix(arr)\<close> for a dense two-dimensional array \<^verbatim>\<open>arr\<close> of
  the given shape.\<close>

definition coo_matrix :: "nat \<times> nat \<Rightarrow> real list list \<Rightarrow> matrix" where
  "coo_matrix shp arr = \<lparr>shape = shp, toarray = arr\<rparr>"

text \<open>Exceptions of the source and of the library calls it makes.\<close>

datatype error =
    TypeError string
  | ValueError string
  | ShapeError "nat \<times> nat"
    \<comment> \<open>\<^verbatim>\<open>ValueError("Count matrix is not square: ", self.countmat.shape)\<close>\<close>

section \<open>The normalizer\<close>

text \<open>
  \<^verbatim>\<open>
  def count_to_trans(countmat):
      tmp = np.array(countmat.toarray(),dtype=float)
      colsums = tmp.sum(axis=1)
      for i,c in enumerate(colsums):
          if c > 0:
              tmp[i] /= c
      return(scipy.sparse.coo_matrix(tmp))
  \<close>
  The loop runs over \<^verbatim>\<open>enumerate(colsums)\<close> and updates row \<^verbatim>\<open>i\<close> of \<^verbatim>\<open>tmp\<close> in
  place; \<open>normalize_rows\<close> is that loop, with the working copy passed along.
\<close>

fun normalize_rows :: "(nat \<times> real) list \<Rightarrow> real list list \<Rightarrow> real list list" where
  "normalize_rows [] tmp = tmp"
| "normalize_rows ((i, c) # ics) tmp =
     normalize_rows ics (if c > 0 then tmp[i := map (\<lambda>x. x / c) (tmp ! i)] else tmp)"

definition count_to_trans :: "matrix \<Rightarrow> matrix" where
  "count_to_trans countmat =
     (let tmp = toarray countmat;
          colsums = map sum_list tmp
      in coo_matrix (shape countmat) (normalize_rows (enumerate 0 colsums) tmp))"

text \<open>
  \<^verbatim>\<open>
  def symmetrize(countmat):
      return 0.5*(countmat + countmat.transpose())
  \<close>
  The sum of two sparse matrices of different shapes raises \<^verbatim>\<open>ValueError\<close>
  (\<^verbatim>\<open>inconsistent shapes\<close>), which is what happens for a matrix that is not square.
\<close>

definition mtranspose :: "matrix \<Rightarrow> matrix" where
  "mtranspose M =
     \<lparr>shape = (snd (shape M), fst (shape M)),
      toarray = map (\<lambda>j. map (\<lambda>i. toarray M ! i ! j) [0..<fst (shape M)])
                    [0..<snd (shape M)]\<rparr>"

definition madd :: "matrix \<Rightarrow> matrix \<Rightarrow> error + matrix" where
  "madd A B =
     (if shape A \<noteq> shape B then Inl (ValueError ''inconsistent shapes'')
      else Inr \<lparr>shape = shape A,
                toarray = map2 (map2 (\<lambda>a b. a + b)) (toarray A) (toarray B)\<rparr>)"

definition smul :: "real \<Rightarrow> matrix \<Rightarrow> matrix" where
  "smul k M = \<lparr>shape = shape M, toarray = map (map (\<lambda>x. k * x)) (toarray M)\<rparr>"

definition symmetrize :: "matrix \<Rightarrow> error + matrix" where
  "symmetrize countmat =
     (case madd countmat (mtranspose countmat) of
        Inl e \<Rightarrow> Inl e
      | Inr s \<Rightarrow> Inr (smul 0.5 s))"

section \<open>The directed graph\<close>

text \<open>
  The part of \<^verbatim>\<open>networkx.DiGraph\<close> that the source uses. Both dictionaries of the
  graph keep insertion order, so they are association lists: \<open>node\<close> maps a node to
  its attributes and \<open>adj\<close> maps a node to its successors, each with the weight of
  the edge.
\<close>

record digraph =
  node :: "(nat \<times> (string \<times> nat) list) list"
  adj :: "(nat \<times> (nat \<times> real) list) list"

definition DiGraph :: digraph where
  "DiGraph = \<lparr>node = [], adj = []\<rparr>"

fun dict_set :: "'k \<Rightarrow> 'v \<Rightarrow> ('k \<times> 'v) list \<Rightarrow> ('k \<times> 'v) list" where
  "dict_set k v [] = [(k, v)]"
| "dict_set k v ((k', v') # kvs) =
     (if k = k' then (k, v) # kvs else (k', v') # dict_set k v kvs)"

definition dict_get :: "('k \<times> 'v list) list \<Rightarrow> 'k \<Rightarrow> 'v list" where
  "dict_get d k = (case map_of d k of None \<Rightarrow> [] | Some v \<Rightarrow> v)"

definition add_node :: "nat \<Rightarrow> (string \<times> nat) list \<Rightarrow> digraph \<Rightarrow> digraph" where
  "add_node n attrs G =
     (if n \<in> set (map fst (node G))
      then G\<lparr>node := dict_set n (fold (\<lambda>(a, v). dict_set a v) attrs (dict_get (node G) n)) (node G)\<rparr>
      else G\<lparr>node := node G @ [(n, attrs)], adj := adj G @ [(n, [])]\<rparr>)"

definition add_nodes_from :: "(nat \<times> (string \<times> nat) list) list \<Rightarrow> digraph \<Rightarrow> digraph" where
  "add_nodes_from ns G = fold (\<lambda>(n, attrs). add_node n attrs) ns G"

definition add_edge :: "nat \<Rightarrow> nat \<Rightarrow> real \<Rightarrow> digraph \<Rightarrow> digraph" where
  "add_edge u v w G =
     (let G1 = (if u \<in> set (map fst (node G)) then G else add_node u [] G);
          G2 = (if v \<in> set (map fst (node G1)) then G1 else add_node v [] G1)
      in G2\<lparr>adj := dict_set u (dict_set v w (dict_get (adj G2) u)) (adj G2)\<rparr>)"

definition add_weighted_edges_from :: "(nat \<times> nat \<times> real) list \<Rightarrow> digraph \<Rightarrow> digraph" where
  "add_weighted_edges_from es G = fold (\<lambda>(u, v, w). add_edge u v w) es G"

text \<open>\<^verbatim>\<open>G[n]\<close> as the traversal iterates it: the successors of \<open>n\<close> in insertion
  order. Every end of an edge is a node of the graph, so the traversal never asks for
  a node that is absent; the model answers the empty list there.\<close>

definition neighbors :: "digraph \<Rightarrow> nat \<Rightarrow> nat list" where
  "neighbors G n = map fst (dict_get (adj G) n)"

text \<open>\<^verbatim>\<open>G.subgraph(nbunch)\<close>: the subgraph induced on the nodes of \<open>nbunch\<close>
  that are in the graph.\<close>

definition subgraph :: "digraph \<Rightarrow> nat list \<Rightarrow> digraph" where
  "subgraph G nbunch =
     \<lparr>node = filter (\<lambda>(n, _). n \<in> set nbunch) (node G),
      adj = map (\<lambda>(n, es). (n, filter (\<lambda>(v, _). v \<in> set nbunch) es))
              (filter (\<lambda>(n, _). n \<in> set nbunch) (adj G))\<rparr>"

text \<open>
  \<^verbatim>\<open>networkx.dfs_edges(G, source)\<close>, the generator behind both traversal calls of
  the source:
  \<^verbatim>\<open>
  visited = set(); visited.add(start)
  stack = [(start, iter(G[start]))]
  while stack:
      parent, children = stack[-1]
      try:
          child = next(children)
          if child not in visited:
              yield parent, child
              visited.add(child)
              stack.append((child, iter(G[child])))
      except StopIteration:
          stack.pop()
  \<close>
  The head of \<open>stack\<close> is the top of the stack, an iterator is the list of the
  children it has not yielded yet, and the edges yielded are the list returned.
  (Later releases of the library also carry a depth bound, the number of nodes of the
  graph by default, which no search path reaches.)
\<close>

function dfs_loop :: "digraph \<Rightarrow> (nat \<times> nat list) list \<Rightarrow> nat list \<Rightarrow> (nat \<times> nat) list" where
  "dfs_loop G [] visited = []"
| "dfs_loop G ((parent, []) # stack) visited = dfs_loop G stack visited"
| "dfs_loop G ((parent, child # children) # stack) visited =
     (if child \<in> set visited then dfs_loop G ((parent, children) # stack) visited
      else (parent, child) #
           dfs_loop G ((child, neighbors G child) # (parent, children) # stack) (child # visited))"
  by pat_completeness auto

termination dfs_loop
proof (relation "measures
    [\<lambda>(G, stack, visited). card (set (map fst (adj G)) - set visited),
     \<lambda>(G, stack, visited). sum_list (map (\<lambda>(p, cs). 2 * length cs + 1) stack)]",
    goal_cases)
  case 1
  show ?case by simp
next
  case (2 G parent stack visited)
  show ?case by simp
next
  case (3 G parent child children stack visited)
  show ?case by simp
next
  case (4 G parent child children stack visited)
  show ?case
  proof (cases "child \<in> set (map fst (adj G))")
    case True
    with 4 have "set (map fst (adj G)) - set (child # visited)
        \<subset> set (map fst (adj G)) - set visited"
      by auto
    then have "card (set (map fst (adj G)) - set (child # visited))
        < card (set (map fst (adj G)) - set visited)"
      by (intro psubset_card_mono) auto
    then show ?thesis by simp
  next
    case False
    then have "map_of (adj G) child = None"
      by (simp add: map_of_eq_None_iff)
    then have "neighbors G child = []"
      by (simp add: neighbors_def dict_get_def)
    moreover have "set (map fst (adj G)) - set (child # visited)
        = set (map fst (adj G)) - set visited"
      using False by auto
    ultimately show ?thesis by simp
  qed
qed

definition dfs_edges :: "digraph \<Rightarrow> nat \<Rightarrow> (nat \<times> nat) list" where
  "dfs_edges G source = dfs_loop G [(source, neighbors G source)] [source]"

text \<open>
  \<^verbatim>\<open>dfs_predecessors(G, source)\<close> is the dictionary \<^verbatim>\<open>{t: s for s, t in
  dfs_edges(G, source)}\<close>: its keys are the nodes the search discovers, each with the
  node it was discovered from. \<^verbatim>\<open>dfs_successors(G, source)\<close> collects, for every
  node that discovers another one, the list of the nodes it discovers:
  \<^verbatim>\<open>for s, t in dfs_edges(G, source): d[s].append(t)\<close>.
\<close>

definition dfs_predecessors :: "digraph \<Rightarrow> nat \<Rightarrow> (nat \<times> nat) list" where
  "dfs_predecessors G source = fold (\<lambda>(s, t). dict_set t s) (dfs_edges G source) []"

definition dfs_successors :: "digraph \<Rightarrow> nat \<Rightarrow> (nat \<times> nat list) list" where
  "dfs_successors G source =
     fold (\<lambda>(s, t) d. dict_set s (dict_get d s @ [t]) d) (dfs_edges G source) []"

definition keys :: "('k \<times> 'v) list \<Rightarrow> 'k list" where
  "keys d = map fst d"

section \<open>Numpy arrays and Python objects\<close>

text \<open>\<^verbatim>\<open>argmax\<close> returns the first index of the greatest entry and raises
  \<^verbatim>\<open>ValueError\<close> on an empty array.\<close>

fun argmax_scan :: "real list \<Rightarrow> nat \<Rightarrow> nat \<Rightarrow> real \<Rightarrow> nat" where
  "argmax_scan [] i best m = best"
| "argmax_scan (x # xs) i best m =
     (if m < x then argmax_scan xs (Suc i) i x else argmax_scan xs (Suc i) best m)"

definition argmax :: "real list \<Rightarrow> error + nat" where
  "argmax xs =
     (case xs of
        [] \<Rightarrow> Inl (ValueError ''attempt to get argmax of an empty sequence'')
      | x # xs' \<Rightarrow> Inr (argmax_scan xs' 1 0 x))"

text \<open>\<^verbatim>\<open>mask[idxs] = False\<close> for a list \<open>idxs\<close> of indices, and the selection
  \<^verbatim>\<open>arr[mask]\<close> by a boolean mask.\<close>

definition set_False :: "nat list \<Rightarrow> bool list \<Rightarrow> bool list" where
  "set_False idxs msk = fold (\<lambda>i m. m[i := False]) idxs msk"

definition compress :: "bool list \<Rightarrow> 'a list \<Rightarrow> 'a list" where
  "compress msk xs = map snd (filter fst (zip msk xs))"

text \<open>
  Reading one element of a numpy array of dtype \<^verbatim>\<open>bool\<close> gives a numpy scalar
  (\<^verbatim>\<open>numpy.bool_\<close>), which is equal to Python's \<^verbatim>\<open>True\<close> or \<^verbatim>\<open>False\<close> but is
  another object. The operator \<^verbatim>\<open>is\<close> compares the identity of objects, and the
  only object that \<^verbatim>\<open>is True\<close> is Python's own \<^verbatim>\<open>True\<close>.
\<close>

datatype pyobject = PyBool bool | NumpyBool bool

definition getitem :: "bool list \<Rightarrow> nat \<Rightarrow> pyobject" where
  "getitem msk i = NumpyBool (msk ! i)"

definition is_True :: "pyobject \<Rightarrow> bool" where
  "is_True x \<longleftrightarrow> x = PyBool True"

text \<open>Calling an object of type \<^verbatim>\<open>bool\<close> raises \<^verbatim>\<open>TypeError\<close>.\<close>

definition call_bool :: "bool \<Rightarrow> matrix \<Rightarrow> error + matrix" where
  "call_bool b x = Inl (TypeError ''bool object is not callable'')"

text \<open>The triples \<^verbatim>\<open>zip(M.row, M.col, M.data)\<close> of a matrix built by
  \<^verbatim>\<open>coo_matrix\<close> from a dense array: its non-zero entries, row by row.\<close>

definition coo_triples :: "matrix \<Rightarrow> (nat \<times> nat \<times> real) list" where
  "coo_triples M =
     concat (map (\<lambda>(i, r). map (\<lambda>(j, x). (i, j, x)) (filter (\<lambda>(j, x). x \<noteq> 0) (enumerate 0 r)))
                 (enumerate 0 (toarray M)))"

section \<open>The CSN object\<close>

text \<open>
  The attributes of an instance. Those that \<^verbatim>\<open>trim_graph\<close> sets are absent until
  it has run. \<open>symmetrize_attr\<close> is \<^verbatim>\<open>self.symmetrize\<close> and \<open>trim_graph_attr\<close> is
  the instance attribute \<^verbatim>\<open>self.trim_graph\<close>, which the method of the same name
  assigns.
\<close>

record CSN =
  countmat :: matrix
  symmetrize_attr :: bool
  nnodes :: nat
  transmat :: matrix
  graph :: digraph
  trim_indices :: "nat list option"
  trim_graph_attr :: "digraph option"
  trim_countmat :: "matrix option"
  trim_nnodes :: "nat option"
  trim_transmat :: "matrix option"

text \<open>
  The argument \<^verbatim>\<open>counts\<close> of the constructor, by the branch that converts it. Each
  form carries the coordinate matrix that scipy's conversion yields for it;
  \<open>Unsupported\<close> is an object whose \<^verbatim>\<open>tocoo()\<close> fails.
\<close>

datatype counts_arg =
    PyList matrix
  | NdArray matrix
  | CooMatrix matrix
  | OtherSparse matrix
  | Unsupported

fun to_coo :: "counts_arg \<Rightarrow> error + matrix" where
  "to_coo (PyList m) = Inr m"
| "to_coo (NdArray m) = Inr m"
| "to_coo (CooMatrix m) = Inr m"
| "to_coo (OtherSparse m) = Inr m"
| "to_coo Unsupported = Inl (TypeError ''Count matrix is of unsupported type: '')"

text \<open>
  \<^verbatim>\<open>
  def __init__(self, counts, symmetrize=False):
      ...
      if self.countmat.shape[0] != self.countmat.shape[1]:
          raise ValueError("Count matrix is not square: ",self.countmat.shape)
      self.symmetrize = symmetrize
      if self.symmetrize:
          self.countmat = symmetrize(self.countmat)
      self.nnodes = self.countmat.shape[0]
      self.transmat = count_to_trans(self.countmat)
      self.graph = nx.DiGraph()
      labels = [{'ID' : i} for i in range(self.nnodes)]
      self.graph.add_nodes_from(zip(range(self.nnodes),labels))
      self.graph.add_weighted_edges_from(zip(self.transmat.row,self.transmat.col,self.transmat.data))
  \<close>
  Inside the constructor the name \<^verbatim>\<open>symmetrize\<close> is the parameter, a truth value,
  which hides the function of the module: \<^verbatim>\<open>symmetrize(self.countmat)\<close> calls the
  truth value.
\<close>

definition CSN_init :: "counts_arg \<Rightarrow> bool \<Rightarrow> error + CSN" where
  "CSN_init counts symmetrize_arg =
     (case to_coo counts of
        Inl e \<Rightarrow> Inl e
      | Inr countmat0 \<Rightarrow>
          if fst (shape countmat0) \<noteq> snd (shape countmat0)
          then Inl (ShapeError (shape countmat0))
          else
            (case (if symmetrize_arg then call_bool symmetrize_arg countmat0
                   else Inr countmat0) of
               Inl e \<Rightarrow> Inl e
             | Inr countmat1 \<Rightarrow>
                 (let n = fst (shape countmat1);
                      tm = count_to_trans countmat1;
                      labels = map (\<lambda>i. [(''ID'', i)]) [0..<n];
                      g = add_weighted_edges_from (coo_triples tm)
                            (add_nodes_from (zip [0..<n] labels) DiGraph)
                  in Inr \<lparr>countmat = countmat1, symmetrize_attr = symmetrize_arg,
                          nnodes = n, transmat = tm, graph = g,
                          trim_indices = None, trim_graph_attr = None,
                          trim_countmat = None, trim_nnodes = None,
                          trim_transmat = None\<rparr>)))"

text \<open>
  \<^verbatim>\<open>
  def trim_graph(self, by_inflow=True, by_outflow=True, min_count=0):
      totcounts = self.countmat.sum(axis=1)
      msn = totcounts.argmax()
      to_cut = []
      mask = np.ones(self.nnodes,dtype=bool)
      if by_outflow:
          downstream = list(nx.dfs_predecessors(self.graph,msn).keys())
          mask[[i for i in range(self.nnodes) if i not in downstream]] = False
      if by_inflow:
          upstream = list(nx.dfs_successors(self.graph,msn).keys())
          mask[[i for i in range(self.nnodes) if i not in upstream]] = False
      if min_count > 0:
          mask[[i for i in range(self.nnodes) if totcounts[i] >= min_count]] = False
      self.trim_indices = [i for i in range(self.nnodes) if mask[i] is True]
      self.trim_graph = self.graph.subgraph(self.trim_indices)
      tmp_arr = self.countmat.toarray()[mask,...][...,mask]
      self.trim_countmat = scipy.sparse.coo_matrix(tmp_arr)
      if self.symmetrize:
          self.trim_countmat = symmetrize(self.trim_countmat)
      self.trim_nnodes = self.trim_countmat.shape[0]
      self.trim_transmat = count_to_trans(self.trim_countmat)
  \<close>
  The constructor sets \<^verbatim>\<open>nnodes\<close> to the number of rows of the square \<^verbatim>\<open>countmat\<close>
  and gives the graph the nodes \<open>0, \<dots>, nnodes - 1\<close>, and nothing changes them
  afterwards, so every index below is in range. \<open>most_sampled\<close> is the node
  \<^verbatim>\<open>msn\<close> and \<open>trim_mask\<close> the array \<^verbatim>\<open>mask\<close> when the three filters have run.
\<close>

definition totcounts :: "CSN \<Rightarrow> real list" where
  "totcounts self = map sum_list (toarray (countmat self))"

definition most_sampled :: "CSN \<Rightarrow> error + nat" where
  "most_sampled self = argmax (totcounts self)"

definition trim_mask :: "CSN \<Rightarrow> nat \<Rightarrow> bool \<Rightarrow> bool \<Rightarrow> real \<Rightarrow> bool list" where
  "trim_mask self msn by_inflow by_outflow min_count =
     (let mask0 = replicate (nnodes self) True;
          mask1 = (if by_outflow then
                     (let downstream = keys (dfs_predecessors (graph self) msn)
                      in set_False [i \<leftarrow> [0..<nnodes self]. i \<notin> set downstream] mask0)
                   else mask0);
          mask2 = (if by_inflow then
                     (let upstream = keys (dfs_successors (graph self) msn)
                      in set_False [i \<leftarrow> [0..<nnodes self]. i \<notin> set upstream] mask1)
                   else mask1)
      in (if min_count > 0 then
            set_False [i \<leftarrow> [0..<nnodes self]. totcounts self ! i \<ge> min_count] mask2
          else mask2))"

definition trim_graph :: "CSN \<Rightarrow> bool \<Rightarrow> bool \<Rightarrow> real \<Rightarrow> error + CSN" where
  "trim_graph self by_inflow by_outflow min_count =
     (case most_sampled self of
        Inl e \<Rightarrow> Inl e
      | Inr msn \<Rightarrow>
          (let msk = trim_mask self msn by_inflow by_outflow min_count;
               indices = [i \<leftarrow> [0..<nnodes self]. is_True (getitem msk i)];
               sub = subgraph (graph self) indices;
               tmp_arr = map (compress msk) (compress msk (toarray (countmat self)));
               m = length (filter (\<lambda>b. b) msk);
               cm0 = coo_matrix (m, m) tmp_arr
           in case (if symmetrize_attr self then symmetrize cm0 else Inr cm0) of
                Inl e \<Rightarrow> Inl e
              | Inr cm \<Rightarrow>
                  Inr (self\<lparr>trim_indices := Some indices,
                            trim_graph_attr := Some sub,
                            trim_countmat := Some cm,
                            trim_nnodes := Some (fst (shape cm)),
                            trim_transmat := Some (count_to_trans cm)\<rparr>)))"

text \<open>
  The call \<^verbatim>\<open>csn.trim_graph(...)\<close> on an instance. Python looks the name up on the
  instance first: once \<^verbatim>\<open>self.trim_graph\<close> has been assigned, the name is the
  subgraph stored there and no longer the method of the class, and calling a graph
  raises \<^verbatim>\<open>TypeError\<close>.
\<close>

definition call_trim_graph :: "CSN \<Rightarrow> bool \<Rightarrow> bool \<Rightarrow> real \<Rightarrow> error + CSN" where
  "call_trim_graph self by_inflow by_outflow min_count =
     (case trim_graph_attr self of
        None \<Rightarrow> trim_graph self by_inflow by_outflow min_count
      | Some g \<Rightarrow> Inl (TypeError ''DiGraph object is not callable''))"

section \<open>Example instances\<close>

text \<open>The instances that the constructor builds from a few small count matrices.
  The theorems below check each of them against \<open>CSN_init\<close>.\<close>

definition one_node :: CSN where
  "one_node =
     \<lparr>countmat = \<lparr>shape = (1, 1), toarray = [[1]]\<rparr>,
      symmetrize_attr = False, nnodes = 1,
      transmat = \<lparr>shape = (1, 1), toarray = [[1]]\<rparr>,
      graph = \<lparr>node = [(0, [(''ID'', 0)])], adj = [(0, [(0, 1)])]\<rparr>,
      trim_indices = None, trim_graph_attr = None, trim_countmat = None,
      trim_nnodes = None, trim_transmat = None\<rparr>"

definition cycle3 :: CSN where
  "cycle3 =
     \<lparr>countmat = \<lparr>shape = (3, 3), toarray = [[0, 5, 0], [0, 0, 5], [5, 0, 0]]\<rparr>,
      symmetrize_attr = False, nnodes = 3,
      transmat = \<lparr>shape = (3, 3), toarray = [[0, 1, 0], [0, 0, 1], [1, 0, 0]]\<rparr>,
      graph = \<lparr>node = [(0, [(''ID'', 0)]), (1, [(''ID'', 1)]), (2, [(''ID'', 2)])],
               adj = [(0, [(1, 1)]), (1, [(2, 1)]), (2, [(0, 1)])]\<rparr>,
      trim_indices = None, trim_graph_attr = None, trim_countmat = None,
      trim_nnodes = None, trim_transmat = None\<rparr>"

definition two_counts :: CSN where
  "two_counts =
     \<lparr>countmat = \<lparr>shape = (2, 2), toarray = [[3, 0], [0, 1]]\<rparr>,
      symmetrize_attr = False, nnodes = 2,
      transmat = \<lparr>shape = (2, 2), toarray = [[1, 0], [0, 1]]\<rparr>,
      graph = \<lparr>node = [(0, [(''ID'', 0)]), (1, [(''ID'', 1)])],
               adj = [(0, [(0, 1)]), (1, [(1, 1)])]\<rparr>,
      trim_indices = None, trim_graph_attr = None, trim_countmat = None,
      trim_nnodes = None, trim_transmat = None\<rparr>"

definition mutual2 :: CSN where
  "mutual2 =
     \<lparr>countmat = \<lparr>shape = (2, 2), toarray = [[0, 2], [1, 0]]\<rparr>,
      symmetrize_attr = False, nnodes = 2,
      transmat = \<lparr>shape = (2, 2), toarray = [[0, 1], [1, 0]]\<rparr>,
      graph = \<lparr>node = [(0, [(''ID'', 0)]), (1, [(''ID'', 1)])],
               adj = [(0, [(1, 1)]), (1, [(0, 1)])]\<rparr>,
      trim_indices = None, trim_graph_attr = None, trim_countmat = None,
      trim_nnodes = None, trim_transmat = None\<rparr>"

definition sink2 :: CSN where
  "sink2 =
     \<lparr>countmat = \<lparr>shape = (2, 2), toarray = [[10, 0], [0, 0]]\<rparr>,
      symmetrize_attr = False, nnodes = 2,
      transmat = \<lparr>shape = (2, 2), toarray = [[1, 0], [0, 0]]\<rparr>,
      graph = \<lparr>node = [(0, [(''ID'', 0)]), (1, [(''ID'', 1)])],
               adj = [(0, [(0, 1)]), (1, [])]\<rparr>,
      trim_indices = None, trim_graph_attr = None, trim_countmat = None,
      trim_nnodes = None, trim_transmat = None\<rparr>"

section \<open>Normalization\<close>

lemma normalize_rows_length: "length (normalize_rows ics tmp) = length tmp"
  by (induction ics tmp rule: normalize_rows.induct) auto

text \<open>The loop touches row \<open>i\<close> once, when it reaches the sum of that row.\<close>

lemma normalize_rows_nth:
  "k + length cs \<le> length tmp \<Longrightarrow> i < length tmp \<Longrightarrow>
   normalize_rows (enumerate k cs) tmp ! i =
     (if k \<le> i \<and> i < k + length cs \<and> cs ! (i - k) > 0
      then map (\<lambda>x. x / cs ! (i - k)) (tmp ! i) else tmp ! i)"
proof (induction cs arbitrary: k tmp)
  case Nil
  then show ?case by auto
next
  case (Cons c cs)
  let ?tmp' = "if c > 0 then tmp[k := map (\<lambda>x. x / c) (tmp ! k)] else tmp"
  have len: "length ?tmp' = length tmp" by simp
  have step: "normalize_rows (enumerate k (c # cs)) tmp
      = normalize_rows (enumerate (Suc k) cs) ?tmp'"
    by simp
  have IH: "normalize_rows (enumerate (Suc k) cs) ?tmp' ! i =
     (if Suc k \<le> i \<and> i < Suc k + length cs \<and> cs ! (i - Suc k) > 0
      then map (\<lambda>x. x / cs ! (i - Suc k)) (?tmp' ! i) else ?tmp' ! i)"
    using Cons.prems by (intro Cons.IH) (simp_all only: len, simp_all)
  show ?case
  proof (cases "i = k")
    case True
    then show ?thesis using Cons.prems unfolding step IH by simp
  next
    case False
    then have nth: "?tmp' ! i = tmp ! i" by simp
    show ?thesis
    proof (cases "Suc k \<le> i")
      case True
      then have "(c # cs) ! (i - k) = cs ! (i - Suc k)"
        by (simp add: Suc_diff_le nth_Cons')
      then show ?thesis using True False unfolding step IH nth by auto
    next
      case False
      then show ?thesis using \<open>i \<noteq> k\<close> unfolding step IH nth by auto
    qed
  qed
qed

lemma count_to_trans_shape: "shape (count_to_trans M) = shape M"
  by (simp add: count_to_trans_def coo_matrix_def Let_def)

lemma count_to_trans_length: "length (toarray (count_to_trans M)) = length (toarray M)"
  by (simp add: count_to_trans_def coo_matrix_def Let_def normalize_rows_length)

lemma count_to_trans_row:
  assumes "i < length (toarray M)"
  shows "toarray (count_to_trans M) ! i =
     (if sum_list (toarray M ! i) > 0
      then map (\<lambda>x. x / sum_list (toarray M ! i)) (toarray M ! i) else toarray M ! i)"
  using assms normalize_rows_nth[of 0 "map sum_list (toarray M)" "toarray M" i]
  by (simp add: count_to_trans_def coo_matrix_def Let_def)

lemma sum_list_divide: "sum_list (map (\<lambda>x. x / c) xs) = sum_list xs / (c::real)"
  by (induction xs) (simp_all add: add_divide_distrib)

lemma nonneg_sum_zero:
  "list_all (\<lambda>x. 0 \<le> x) xs \<Longrightarrow> sum_list xs = (0::real) \<Longrightarrow> list_all (\<lambda>x. x = 0) xs"
  using sum_list_nonneg_eq_0_iff[of xs] by (simp add: list_all_iff)

lemma count_to_trans_valid: "valid_matrix M \<Longrightarrow> valid_matrix (count_to_trans M)"
  unfolding valid_matrix_def list_all_length
  by (simp add: count_to_trans_shape count_to_trans_length count_to_trans_row)

text \<open>
  C1. For every non-negative square count matrix, \<open>count_to_trans\<close> returns a matrix
  of the same shape; every row whose sum is positive is the input row divided by that
  sum, and sums to 1; every row whose sum is zero is returned as it is, and is all
  zero. \<open>count_to_trans\<close> has no failing branch, so nothing is raised for a row of
  zeros. (Entries are real numbers here, so the sum is exactly 1.)
\<close>

theorem count_to_trans_rows:
  assumes "valid_matrix M" and "nonneg M" and "square M"
  shows "shape (count_to_trans M) = shape M \<and> valid_matrix (count_to_trans M) \<and>
    (\<forall>i < fst (shape M).
       (0 < sum_list (toarray M ! i) \<longrightarrow>
          toarray (count_to_trans M) ! i
            = map (\<lambda>x. x / sum_list (toarray M ! i)) (toarray M ! i) \<and>
          sum_list (toarray (count_to_trans M) ! i) = 1) \<and>
       (sum_list (toarray M ! i) = 0 \<longrightarrow>
          toarray (count_to_trans M) ! i = toarray M ! i \<and>
          list_all (\<lambda>x. x = 0) (toarray M ! i)))"
proof (intro conjI allI impI)
  show "shape (count_to_trans M) = shape M" by (rule count_to_trans_shape)
  show "valid_matrix (count_to_trans M)" using assms(1) by (rule count_to_trans_valid)
next
  fix i assume i: "i < fst (shape M)" and pos: "0 < sum_list (toarray M ! i)"
  from i assms(1) have il: "i < length (toarray M)" by (simp add: valid_matrix_def)
  show row: "toarray (count_to_trans M) ! i
      = map (\<lambda>x. x / sum_list (toarray M ! i)) (toarray M ! i)"
    using il pos by (simp add: count_to_trans_row)
  show "sum_list (toarray (count_to_trans M) ! i) = 1"
    unfolding row using pos by (simp add: sum_list_divide)
next
  fix i assume i: "i < fst (shape M)" and z: "sum_list (toarray M ! i) = 0"
  from i assms(1) have il: "i < length (toarray M)" by (simp add: valid_matrix_def)
  show "toarray (count_to_trans M) ! i = toarray M ! i"
    using il z by (simp add: count_to_trans_row)
  from assms(2) il have "list_all (\<lambda>x. 0 \<le> x) (toarray M ! i)"
    by (simp add: nonneg_def list_all_length)
  then show "list_all (\<lambda>x. x = 0) (toarray M ! i)" using z by (rule nonneg_sum_zero)
qed

theorem count_to_trans_rows_witness:
  "valid_matrix \<lparr>shape = (2, 2), toarray = [[10, 0], [0, 0]]\<rparr> \<and>
   nonneg \<lparr>shape = (2, 2), toarray = [[10, 0], [0, 0]]\<rparr> \<and>
   square \<lparr>shape = (2, 2), toarray = [[10, 0], [0, 0]]\<rparr> \<and>
   shape (count_to_trans \<lparr>shape = (2, 2), toarray = [[10, 0], [0, 0]]\<rparr>) = (2, 2) \<and>
   toarray (count_to_trans \<lparr>shape = (2, 2), toarray = [[10, 0], [0, 0]]\<rparr>) ! 0 = [1, 0] \<and>
   sum_list (toarray (count_to_trans \<lparr>shape = (2, 2), toarray = [[10, 0], [0, 0]]\<rparr>) ! 0) = 1 \<and>
   toarray (count_to_trans \<lparr>shape = (2, 2), toarray = [[10, 0], [0, 0]]\<rparr>) ! 1 = [0, 0]"
proof -
  let ?M = "\<lparr>shape = (2, 2), toarray = [[10, 0], [0, 0::real]]\<rparr>"
  have v: "valid_matrix ?M" by (simp add: valid_matrix_def)
  have n: "nonneg ?M" by (simp add: nonneg_def)
  have s: "square ?M" by (simp add: square_def)
  note t = count_to_trans_rows[OF v n s]
  from t have sh: "shape (count_to_trans ?M) = (2, 2)" by simp
  from t have r0: "toarray (count_to_trans ?M) ! 0 = [1, 0] \<and>
      sum_list (toarray (count_to_trans ?M) ! 0) = 1"
    by simp
  from t have r1: "toarray (count_to_trans ?M) ! 1 = [0, 0]" by simp
  from v n s sh r0 r1 show ?thesis by simp
qed

section \<open>Symmetrization\<close>

lemma madd_nth:
  assumes "valid_matrix A" "valid_matrix B" "shape A = shape B"
  shows "madd A B = Inr \<lparr>shape = shape A,
     toarray = map (\<lambda>i. map (\<lambda>j. toarray A ! i ! j + toarray B ! i ! j) [0..<snd (shape A)])
                   [0..<fst (shape A)]\<rparr>"
proof -
  have "map2 (map2 (\<lambda>a b. a + b)) (toarray A) (toarray B) =
        map (\<lambda>i. map (\<lambda>j. toarray A ! i ! j + toarray B ! i ! j) [0..<snd (shape A)])
            [0..<fst (shape A)]"
  proof (rule nth_equalityI, goal_cases)
    case 1
    show ?case using assms by (simp add: valid_matrix_def)
  next
    case (2 i)
    then have i: "i < fst (shape A)" using assms by (simp add: valid_matrix_def)
    then have la: "length (toarray A ! i) = snd (shape A)"
      and lb: "length (toarray B ! i) = snd (shape A)"
      using assms by (simp_all add: valid_matrix_def list_all_length)
    have "map2 (\<lambda>a b. a + b) (toarray A ! i) (toarray B ! i) =
          map (\<lambda>j. toarray A ! i ! j + toarray B ! i ! j) [0..<snd (shape A)]"
      by (rule nth_equalityI) (simp_all add: la lb)
    then show ?case using i assms by (simp add: valid_matrix_def)
  qed
  then show ?thesis using assms by (simp add: madd_def)
qed

lemma mtranspose_valid: "valid_matrix (mtranspose M)"
  by (simp add: valid_matrix_def mtranspose_def list_all_length)

text \<open>On a square matrix \<open>symmetrize\<close> succeeds, and entry \<open>(i, j)\<close> of the result is
  half the sum of the entries \<open>(i, j)\<close> and \<open>(j, i)\<close>.\<close>

lemma symmetrize_square:
  assumes "valid_matrix M" "square M"
  shows "symmetrize M = Inr \<lparr>shape = shape M,
     toarray = map (\<lambda>i. map (\<lambda>j. 0.5 * (toarray M ! i ! j + toarray M ! j ! i))
                            [0..<fst (shape M)])
                   [0..<fst (shape M)]\<rparr>"
proof -
  have sh: "shape M = shape (mtranspose M)"
    using assms(2) by (simp add: square_def mtranspose_def prod_eq_iff)
  have n: "snd (shape M) = fst (shape M)" using assms(2) by (simp add: square_def)
  show ?thesis
    unfolding symmetrize_def madd_nth[OF assms(1) mtranspose_valid sh]
    by (simp add: smul_def n mtranspose_def comp_def cong: map_cong)
qed

text \<open>
  C10. \<open>symmetrize\<close> is idempotent: for every square matrix \<open>M\<close> it returns a matrix
  \<open>S\<close>, and \<open>symmetrize\<close> of \<open>S\<close> is \<open>S\<close> again.
\<close>

theorem symmetrize_idempotent:
  assumes "valid_matrix M" and "square M"
  shows "\<exists>S. symmetrize M = Inr S \<and> symmetrize S = Inr S"
proof -
  let ?n = "fst (shape M)"
  let ?S = "\<lparr>shape = shape M,
     toarray = map (\<lambda>i. map (\<lambda>j. 0.5 * (toarray M ! i ! j + toarray M ! j ! i)) [0..<?n])
                   [0..<?n]\<rparr>"
  have 1: "symmetrize M = Inr ?S" using assms by (rule symmetrize_square)
  have vS: "valid_matrix ?S"
    using assms(2) by (simp add: valid_matrix_def list_all_length square_def)
  have sS: "square ?S" using assms(2) by (simp add: square_def)
  have "symmetrize ?S = Inr ?S"
    unfolding symmetrize_square[OF vS sS] by (auto simp: field_simps)
  with 1 show ?thesis by blast
qed

theorem symmetrize_idempotent_witness:
  "valid_matrix \<lparr>shape = (2, 2), toarray = [[0, 2], [1, 0]]\<rparr> \<and>
   square \<lparr>shape = (2, 2), toarray = [[0, 2], [1, 0]]\<rparr> \<and>
   symmetrize \<lparr>shape = (2, 2), toarray = [[0, 2], [1, 0]]\<rparr>
     = Inr \<lparr>shape = (2, 2), toarray = [[0, 3/2], [3/2, 0]]\<rparr> \<and>
   symmetrize \<lparr>shape = (2, 2), toarray = [[0, 3/2], [3/2, 0]]\<rparr>
     = Inr \<lparr>shape = (2, 2), toarray = [[0, 3/2], [3/2, 0]]\<rparr>"
proof -
  let ?M = "\<lparr>shape = (2, 2), toarray = [[0, 2], [1, 0::real]]\<rparr>"
  have v: "valid_matrix ?M" by (simp add: valid_matrix_def)
  have s: "square ?M" by (simp add: square_def)
  have e: "symmetrize ?M = Inr \<lparr>shape = (2, 2), toarray = [[0, 3/2], [3/2, 0]]\<rparr>"
    by (simp add: symmetrize_def madd_def mtranspose_def smul_def upt_rec)
  from symmetrize_idempotent[OF v s] e v s show ?thesis by auto
qed

section \<open>Construction\<close>

text \<open>
  C9. Whenever the input converts to a coordinate matrix whose two dimensions differ,
  the constructor raises the error that carries the shape of that matrix, whatever the
  symmetrize flag, and returns no instance.
\<close>

theorem CSN_init_not_square:
  assumes "to_coo counts = Inr M" and "fst (shape M) \<noteq> snd (shape M)"
  shows "CSN_init counts symmetrize_arg = Inl (ShapeError (shape M))"
  using assms by (simp add: CSN_init_def)

theorem CSN_init_not_square_witness:
  "to_coo (PyList \<lparr>shape = (2, 3), toarray = [[1, 2, 3], [4, 5, 6]]\<rparr>)
     = Inr \<lparr>shape = (2, 3), toarray = [[1, 2, 3], [4, 5, 6]]\<rparr> \<and>
   fst (shape \<lparr>shape = (2, 3), toarray = [[1, 2, 3], [4, 5, 6::real]]\<rparr>)
     \<noteq> snd (shape \<lparr>shape = (2, 3), toarray = [[1, 2, 3], [4, 5, 6::real]]\<rparr>) \<and>
   CSN_init (PyList \<lparr>shape = (2, 3), toarray = [[1, 2, 3], [4, 5, 6]]\<rparr>) False
     = Inl (ShapeError (2, 3))"
proof -
  let ?M = "\<lparr>shape = (2, 3), toarray = [[1, 2, 3], [4, 5, 6::real]]\<rparr>"
  have a: "to_coo (PyList ?M) = Inr ?M" by simp
  have b: "fst (shape ?M) \<noteq> snd (shape ?M)" by simp
  from CSN_init_not_square[OF a b, of False] a b show ?thesis by simp
qed

text \<open>With the symmetrize flag set, the constructor returns no instance for any input:
  the input is refused, or it is not square, or the call of the flag raises.\<close>

lemma CSN_init_symmetrize_raises: "isl (CSN_init counts True)"
  by (cases counts) (simp_all add: CSN_init_def call_bool_def)

text \<open>
  C2. The claim does not hold of the code. For the square count matrix
  \<open>[[0, 2], [0, 0]]\<close> the function \<open>symmetrize\<close> gives \<open>[[0, 1], [1, 0]]\<close>, but the
  constructor called with the symmetrize flag set raises \<^verbatim>\<open>TypeError\<close> and builds
  no instance: the name it calls is its own parameter, not the function.
\<close>

theorem CSN_init_symmetrize_flag_raises:
  "symmetrize \<lparr>shape = (2, 2), toarray = [[0, 2], [0, 0]]\<rparr>
     = Inr \<lparr>shape = (2, 2), toarray = [[0, 1], [1, 0]]\<rparr> \<and>
   CSN_init (PyList \<lparr>shape = (2, 2), toarray = [[0, 2], [0, 0]]\<rparr>) True
     = Inl (TypeError ''bool object is not callable'')"
  by code_simp

section \<open>Trimming\<close>

lemma is_True_getitem: "is_True (getitem msk i) = False"
  by (simp add: is_True_def getitem_def)

text \<open>No element of the mask is the object \<^verbatim>\<open>True\<close>, so whenever \<open>trim_graph\<close>
  returns, the list of retained indices is empty.\<close>

lemma trim_graph_indices_empty:
  "trim_graph self by_inflow by_outflow min_count = Inr self' \<Longrightarrow> trim_indices self' = Some []"
  by (auto simp: trim_graph_def Let_def is_True_getitem split: sum.splits if_splits)

text \<open>After one successful call on an instance, every further call raises.\<close>

lemma call_trim_graph_once:
  "call_trim_graph self by_inflow by_outflow min_count = Inr self' \<Longrightarrow>
   call_trim_graph self' by_inflow' by_outflow' min_count' =
     Inl (TypeError ''DiGraph object is not callable'')"
  by (auto simp: call_trim_graph_def trim_graph_def Let_def
      split: option.splits sum.splits if_splits)

lemma set_False_length: "length (set_False idxs msk) = length msk"
  unfolding set_False_def by (induction idxs arbitrary: msk) simp_all

lemma set_False_nth:
  "i < length msk \<Longrightarrow> set_False idxs msk ! i = (msk ! i \<and> i \<notin> set idxs)"
  unfolding set_False_def
proof (induction idxs arbitrary: msk)
  case Nil
  then show ?case by simp
next
  case (Cons j js)
  then show ?case by (cases "i = j") auto
qed

text \<open>The search yields an edge only into a node it has not visited, so the source is
  never a key of \<open>dfs_predecessors\<close>.\<close>

lemma dfs_loop_targets:
  "(s, t) \<in> set (dfs_loop G stack visited) \<Longrightarrow> t \<notin> set visited"
  by (induction G stack visited rule: dfs_loop.induct) (auto split: if_splits)

lemma dict_set_keys:
  "map fst (dict_set k v d) = (if k \<in> fst ` set d then map fst d else map fst d @ [k])"
  by (induction d) force+

lemma dfs_predecessors_keys_aux:
  "set (map fst (fold (\<lambda>(s, t). dict_set t s) es d)) = set (map fst d) \<union> snd ` set es"
proof (induction es arbitrary: d)
  case Nil
  show ?case by simp
next
  case (Cons e es)
  obtain s t where e: "e = (s, t)" by (cases e)
  have "set (map fst (dict_set t s d)) = insert t (set (map fst d))"
    by (simp add: dict_set_keys insert_absorb)
  then have "set (map fst (fold (\<lambda>(s, t). dict_set t s) es (dict_set t s d)))
      = insert t (set (map fst d)) \<union> snd ` set es"
    by (simp only: Cons.IH)
  then show ?case unfolding e by simp
qed

lemma dfs_predecessors_source:
  "source \<notin> set (keys (dfs_predecessors G source))"
proof
  assume "source \<in> set (keys (dfs_predecessors G source))"
  then have "source \<in> snd ` set (dfs_edges G source)"
    unfolding keys_def dfs_predecessors_def dfs_predecessors_keys_aux by simp
  then obtain s where "(s, source) \<in> set (dfs_edges G source)"
    by auto
  then show False
    using dfs_loop_targets[of s source G "[(source, neighbors G source)]" "[source]"]
    by (simp add: dfs_edges_def)
qed

lemma trim_mask_length:
  "length (trim_mask self msn by_inflow by_outflow min_count) = nnodes self"
  by (simp add: trim_mask_def Let_def set_False_length)

text \<open>With the outflow filter on, the mask drops the most-sampled node itself.\<close>

lemma trim_mask_outflow_drops_msn:
  assumes "msn < nnodes self"
  shows "\<not> trim_mask self msn by_inflow True min_count ! msn"
  using assms dfs_predecessors_source[of msn "graph self"]
  by (simp add: trim_mask_def Let_def set_False_nth set_False_length)

text \<open>With the count filter alone, the mask keeps the nodes whose total count is
  below the threshold.\<close>

lemma trim_mask_min_count:
  assumes "i < nnodes self" and "0 < min_count"
  shows "trim_mask self msn False False min_count ! i \<longleftrightarrow> totcounts self ! i < min_count"
  using assms by (auto simp: trim_mask_def Let_def set_False_nth set_False_length)

lemma trim_mask_disabled:
  "trim_mask self msn False False 0 = replicate (nnodes self) True"
  by (simp add: trim_mask_def)

text \<open>
  C3. The claim does not hold of the code. For the count matrix \<open>[[1]]\<close> the
  constructor builds the instance \<open>one_node\<close> with one node. Trimming it with both
  flow filters off and \<open>min_count = 0\<close> succeeds and keeps the whole count matrix, but
  stores the empty list as \<^verbatim>\<open>trim_indices\<close>, where the claim has \<open>[0]\<close>.
\<close>

theorem trim_disabled_indices_empty:
  "CSN_init (PyList \<lparr>shape = (1, 1), toarray = [[1]]\<rparr>) False = Inr one_node \<and>
   nnodes one_node = 1 \<and>
   call_trim_graph one_node False False 0 =
     Inr (one_node\<lparr>trim_indices := Some [],
                   trim_graph_attr := Some \<lparr>node = [], adj = []\<rparr>,
                   trim_countmat := Some \<lparr>shape = (1, 1), toarray = [[1]]\<rparr>,
                   trim_nnodes := Some 1,
                   trim_transmat := Some \<lparr>shape = (1, 1), toarray = [[1]]\<rparr>\<rparr>)"
  by code_simp

text \<open>
  C4. The claim does not hold of the code. For the 3-cycle
  \<open>[[0, 5, 0], [0, 0, 5], [5, 0, 0]]\<close> the most-sampled node is node 0. Trimming with
  both flow filters on leaves the mask \<open>[False, True, False]\<close>, which drops node 0,
  and stores the empty list as \<^verbatim>\<open>trim_indices\<close>: the most-sampled node is not
  among the retained indices.
\<close>

theorem trim_flow_filters_drop_msn:
  "CSN_init (PyList \<lparr>shape = (3, 3), toarray = [[0, 5, 0], [0, 0, 5], [5, 0, 0]]\<rparr>) False
     = Inr cycle3 \<and>
   most_sampled cycle3 = Inr 0 \<and>
   trim_mask cycle3 0 True True 0 = [False, True, False] \<and>
   call_trim_graph cycle3 True True 0 =
     Inr (cycle3\<lparr>trim_indices := Some [],
                 trim_graph_attr := Some \<lparr>node = [], adj = []\<rparr>,
                 trim_countmat := Some \<lparr>shape = (1, 1), toarray = [[0]]\<rparr>,
                 trim_nnodes := Some 1,
                 trim_transmat := Some \<lparr>shape = (1, 1), toarray = [[0]]\<rparr>\<rparr>)"
  by code_simp

text \<open>
  C5. The claim does not hold of the code. For the count matrix \<open>[[3, 0], [0, 1]]\<close>
  the total counts are 3 and 1. Trimming with both flow filters off and
  \<open>min_count = 2\<close> leaves the mask \<open>[False, True]\<close>: node 0, whose count reaches the
  threshold, is dropped, and node 1, whose count is below it, is the row kept in
  \<^verbatim>\<open>trim_countmat\<close>. \<^verbatim>\<open>trim_indices\<close> is the empty list.
\<close>

theorem trim_min_count_keeps_low_counts:
  "CSN_init (PyList \<lparr>shape = (2, 2), toarray = [[3, 0], [0, 1]]\<rparr>) False = Inr two_counts \<and>
   totcounts two_counts = [3, 1] \<and>
   most_sampled two_counts = Inr 0 \<and>
   trim_mask two_counts 0 False False 2 = [False, True] \<and>
   call_trim_graph two_counts False False 2 =
     Inr (two_counts\<lparr>trim_indices := Some [],
                     trim_graph_attr := Some \<lparr>node = [], adj = []\<rparr>,
                     trim_countmat := Some \<lparr>shape = (1, 1), toarray = [[1]]\<rparr>,
                     trim_nnodes := Some 1,
                     trim_transmat := Some \<lparr>shape = (1, 1), toarray = [[1]]\<rparr>\<rparr>)"
  by code_simp

text \<open>
  C6. The claim does not hold of the code. For the count matrix \<open>[[0, 2], [1, 0]]\<close>
  the most-sampled node is node 0, and node 1 has an edge to node 0, so node 0 is
  reachable from node 1. Trimming with the inflow filter alone leaves the mask
  \<open>[True, False]\<close>, which drops node 1, and stores the empty list as
  \<^verbatim>\<open>trim_indices\<close>.
\<close>

theorem trim_inflow_drops_ancestor:
  "CSN_init (PyList \<lparr>shape = (2, 2), toarray = [[0, 2], [1, 0]]\<rparr>) False = Inr mutual2 \<and>
   most_sampled mutual2 = Inr 0 \<and>
   neighbors (graph mutual2) 1 = [0] \<and>
   keys (dfs_successors (graph mutual2) 0) = [0] \<and>
   trim_mask mutual2 0 True False 0 = [True, False] \<and>
   call_trim_graph mutual2 True False 0 =
     Inr (mutual2\<lparr>trim_indices := Some [],
                  trim_graph_attr := Some \<lparr>node = [], adj = []\<rparr>,
                  trim_countmat := Some \<lparr>shape = (1, 1), toarray = [[0]]\<rparr>,
                  trim_nnodes := Some 1,
                  trim_transmat := Some \<lparr>shape = (1, 1), toarray = [[0]]\<rparr>\<rparr>)"
  by code_simp

text \<open>
  C7. The claim does not hold of the code. For the count matrix \<open>[[10, 0], [0, 0]]\<close>,
  trimming with both flow filters off and \<open>min_count = 0\<close> stores the empty list as
  \<^verbatim>\<open>trim_indices\<close>, of length 0, while \<^verbatim>\<open>trim_countmat\<close> and \<^verbatim>\<open>trim_transmat\<close>
  have 2 rows and 2 columns.
\<close>

theorem trim_indices_shorter_than_matrices:
  "CSN_init (PyList \<lparr>shape = (2, 2), toarray = [[10, 0], [0, 0]]\<rparr>) False = Inr sink2 \<and>
   call_trim_graph sink2 False False 0 =
     Inr (sink2\<lparr>trim_indices := Some [],
                trim_graph_attr := Some \<lparr>node = [], adj = []\<rparr>,
                trim_countmat := Some \<lparr>shape = (2, 2), toarray = [[10, 0], [0, 0]]\<rparr>,
                trim_nnodes := Some 2,
                trim_transmat := Some \<lparr>shape = (2, 2), toarray = [[1, 0], [0, 0]]\<rparr>\<rparr>)"
  by code_simp

text \<open>
  C8. The claim does not hold of the code. On the instance \<open>cycle3\<close> the first call
  of \<^verbatim>\<open>trim_graph\<close> (with its default arguments) succeeds and stores the subgraph
  under the name of the method; the second call, on the instance the first one
  leaves, raises \<^verbatim>\<open>TypeError\<close>.
\<close>

theorem trim_second_call_raises:
  "CSN_init (PyList \<lparr>shape = (3, 3), toarray = [[0, 5, 0], [0, 0, 5], [5, 0, 0]]\<rparr>) False
     = Inr cycle3 \<and>
   call_trim_graph cycle3 True True 0 =
     Inr (cycle3\<lparr>trim_indices := Some [],
                 trim_graph_attr := Some \<lparr>node = [], adj = []\<rparr>,
                 trim_countmat := Some \<lparr>shape = (1, 1), toarray = [[0]]\<rparr>,
                 trim_nnodes := Some 1,
                 trim_transmat := Some \<lparr>shape = (1, 1), toarray = [[0]]\<rparr>\<rparr>) \<and>
   call_trim_graph
     (cycle3\<lparr>trim_indices := Some [],
             trim_graph_attr := Some \<lparr>node = [], adj = []\<rparr>,
             trim_countmat := Some \<lparr>shape = (1, 1), toarray = [[0]]\<rparr>,
             trim_nnodes := Some 1,
             trim_transmat := Some \<lparr>shape = (1, 1), toarray = [[0]]\<rparr>\<rparr>) True True 0
     = Inl (TypeError ''DiGraph object is not callable'')"
  by code_simp

end
